theory Spec2Isabelle
  imports Main
begin

section \<open>Strings\<close>

text \<open>
  A Python \<open>str\<close> is a sequence of Unicode code points, so a string is a list of
  code points here. \<open>str\<close> turns an ASCII literal into such a list.
\<close>

type_synonym pystr = "nat list"

definition str :: "string \<Rightarrow> pystr" where
  "str s = map of_char s"

section \<open>The Normalizer\<close>

text \<open>
  The dictionary literal \<open>polish_chars\<close> of \<open>normalize\<close>, in source order, as code
  points: the key U+015A maps to U+015A itself, and the key U+017B occurs twice
  (U+0179 does not occur). A later item of a dictionary literal overrides an earlier one
  with the same key.
\<close>

definition polish_chars_items :: "(nat \<times> pystr) list" where
  "polish_chars_items =
     [(261, [97]), (260, [65]), (263, [99]), (262, [67]), (281, [101]), (280, [69]),
      (322, [108]), (321, [76]), (324, [110]), (323, [78]), (243, [111]), (211, [79]),
      (347, [115]), (346, [346]), (378, [122]), (379, [90]), (380, [122]), (379, [90])]"

definition polish_chars :: "nat \<rightharpoonup> pystr" where
  "polish_chars = map_of (rev polish_chars_items)"

text \<open>\<open>str.translate(table)\<close>: a code point that is a key is replaced by its value.\<close>

definition translate_char :: "nat \<Rightarrow> pystr" where
  "translate_char c = (case polish_chars c of Some s \<Rightarrow> s | None \<Rightarrow> [c])"

definition translate :: "pystr \<Rightarrow> pystr" where
  "translate name = concat (map translate_char name)"

text \<open>
  The class \<open>\w\<close> of a \<open>str\<close> pattern is Unicode-aware: a code point is a word
  character when it is alphanumeric or the underscore. Below 128 the alphanumeric code
  points are the ASCII letters and digits; above, the answer is in the Unicode database of
  the interpreter, which is the parameter \<open>U\<close>.
\<close>

definition ascii_word :: "nat \<Rightarrow> bool" where
  "ascii_word c \<longleftrightarrow>
     (48 \<le> c \<and> c \<le> 57) \<or> (65 \<le> c \<and> c \<le> 90) \<or> (97 \<le> c \<and> c \<le> 122) \<or> c = 95"

definition is_word :: "(nat \<Rightarrow> bool) \<Rightarrow> nat \<Rightarrow> bool" where
  "is_word U c = (if c < 128 then ascii_word c else U c)"

text \<open>
  The alphanumeric code points from U+0080 to U+017F (Latin-1 Supplement and
  Latin Extended-A), as \<open>str.isalnum\<close> reports them; used where a concrete input is
  evaluated.
\<close>

definition latin_alnum :: "nat \<Rightarrow> bool" where
  "latin_alnum c \<longleftrightarrow>
     c = 170 \<or> c = 178 \<or> c = 179 \<or> c = 181 \<or> c = 185 \<or> c = 186 \<or>
     (188 \<le> c \<and> c \<le> 190) \<or> (192 \<le> c \<and> c \<le> 214) \<or> (216 \<le> c \<and> c \<le> 246) \<or>
     (248 \<le> c \<and> c \<le> 383)"

text \<open>
  \<open>re.sub(r"\W+", "_", s)\<close>: scanning from the left, every maximal run of code points
  that are not word characters is replaced by one underscore.
\<close>

function re_sub_W :: "(nat \<Rightarrow> bool) \<Rightarrow> pystr \<Rightarrow> pystr" where
  "re_sub_W U [] = []"
| "re_sub_W U (c # cs) =
     (if is_word U c then c # re_sub_W U cs
      else 95 # re_sub_W U (dropWhile (\<lambda>d. \<not> is_word U d) cs))"
  by pat_completeness auto
termination
  by (relation "measure (\<lambda>(U, s). length s)")
     (auto simp: length_dropWhile_le less_Suc_eq_le)

definition normalize_name :: "(nat \<Rightarrow> bool) \<Rightarrow> pystr \<Rightarrow> pystr" where
  "normalize_name U name = re_sub_W U (translate name)"

section \<open>Path names (\<open>os.path\<close> on a POSIX system)\<close>

text \<open>
  The path separator is code point 47 and the extension separator is code point 46.
  \<open>rfind\<close> is \<open>str.rfind\<close> for a single character: the index of its last occurrence,
  or \<open>-1\<close>.
\<close>

definition rfind :: "nat \<Rightarrow> pystr \<Rightarrow> int" where
  "rfind c s =
     (if c \<in> set s then int (length s) - 1 - int (length (takeWhile (\<lambda>d. d \<noteq> c) (rev s)))
      else - 1)"

definition rstrip :: "nat \<Rightarrow> pystr \<Rightarrow> pystr" where
  "rstrip c s = rev (dropWhile (\<lambda>d. d = c) (rev s))"

text \<open>One step of \<open>os.path.join\<close>, and the join of a path with further components.\<close>

definition join2 :: "pystr \<Rightarrow> pystr \<Rightarrow> pystr" where
  "join2 path b =
     (if (b \<noteq> [] \<and> hd b = 47) \<or> path = [] then b
      else if last path = 47 then path @ b
      else path @ [47] @ b)"

definition os_path_join :: "pystr \<Rightarrow> pystr list \<Rightarrow> pystr" where
  "os_path_join a p = foldl join2 a p"

definition os_path_split :: "pystr \<Rightarrow> pystr \<times> pystr" where
  "os_path_split p =
     (let i = nat (rfind 47 p + 1); head = take i p; tail = drop i p
      in (if head \<noteq> [] \<and> head \<noteq> replicate (length head) 47 then rstrip 47 head else head,
          tail))"

definition os_path_dirname :: "pystr \<Rightarrow> pystr" where
  "os_path_dirname p =
     (let i = nat (rfind 47 p + 1); head = take i p
      in if head \<noteq> [] \<and> head \<noteq> replicate (length head) 47 then rstrip 47 head else head)"

text \<open>
  \<open>os.path.splitext\<close>: the extension starts at the last dot of the last component,
  unless only dots precede it in that component.
\<close>

definition os_path_splitext :: "pystr \<Rightarrow> pystr \<times> pystr" where
  "os_path_splitext p =
     (let sepIndex = rfind 47 p; dotIndex = rfind 46 p
      in if dotIndex > sepIndex \<and>
            list_ex (\<lambda>c. c \<noteq> 46)
              (take (nat (dotIndex - (sepIndex + 1))) (drop (nat (sepIndex + 1)) p))
         then (take (nat dotIndex) p, drop (nat dotIndex) p)
         else (p, []))"

text \<open>The decimal numeral of a natural number, as an f-string prints an \<open>int\<close>.\<close>

function str_of_nat :: "nat \<Rightarrow> pystr" where
  "str_of_nat n = (if n < 10 then [48 + n] else str_of_nat (n div 10) @ [48 + n mod 10])"
  by pat_completeness auto
termination
  by (relation "measure (\<lambda>n. n)") auto

section \<open>The file system\<close>

text \<open>
  The state of the operating system that the program reads and writes: the directory tree,
  as a list of the entries with their canonical absolute paths (lists of components, the
  root being the empty list, which always is a directory), the working directory, and
  the lines printed so far. The order of the list is the order in which a directory
  is scanned. There are no symbolic links.
\<close>

datatype kind = File | Dir

record os_state =
  entries :: "(pystr list \<times> kind) list"
  cwd :: "pystr list"
  stdout :: "pystr list"

text \<open>
  The exceptions that the program can meet. \<open>OSError\<close> stands for every operating
  system error other than \<open>FileExistsError\<close>, the only one that the program catches.
\<close>

datatype error = TypeError | FileExistsError | OSError | ReadError | SystemExit pystr

definition kind_at :: "os_state \<Rightarrow> pystr list \<Rightarrow> kind option" where
  "kind_at st q = (if q = [] then Some Dir else map_of (entries st) q)"

definition children :: "os_state \<Rightarrow> pystr list \<Rightarrow> (pystr list \<times> kind) list" where
  "children st q = filter (\<lambda>(r, k). r \<noteq> [] \<and> butlast r = q) (entries st)"

text \<open>Splitting a path at the separators: \<open>p.split('/')\<close>.\<close>

fun split_sep :: "pystr \<Rightarrow> pystr list" where
  "split_sep [] = [[]]"
| "split_sep (c # cs) =
     (if c = 47 then [] # split_sep cs
      else (case split_sep cs of [] \<Rightarrow> [[c]] | w # ws \<Rightarrow> (c # w) # ws))"

text \<open>
  Path resolution: from the directory \<open>cur\<close>, follow the components one by one. Every
  component, also an empty one and \<open>.\<close>, needs the current node to be a directory;
  \<open>..\<close> goes to the parent (the root is its own parent); the node reached must exist.
\<close>

fun walk :: "os_state \<Rightarrow> pystr list \<Rightarrow> pystr list \<Rightarrow> pystr list option" where
  "walk st cur [] = (if kind_at st cur = None then None else Some cur)"
| "walk st cur (c # cs) =
     (if kind_at st cur \<noteq> Some Dir then None
      else if c = [] \<or> c = [46] then walk st cur cs
      else if c = [46, 46] then walk st (butlast cur) cs
      else walk st (cur @ [c]) cs)"

definition start_dir :: "os_state \<Rightarrow> pystr \<Rightarrow> pystr list" where
  "start_dir st p = (if p \<noteq> [] \<and> hd p = 47 then [] else cwd st)"

text \<open>The canonical path of an existing node; the empty path names nothing.\<close>

definition resolve :: "os_state \<Rightarrow> pystr \<Rightarrow> pystr list option" where
  "resolve st p = (if p = [] then None else walk st (start_dir st p) (split_sep p))"

text \<open>
  The canonical path that a new entry would have: the parent must be an existing
  directory and the last component an ordinary name.
\<close>

definition resolve_target :: "os_state \<Rightarrow> pystr \<Rightarrow> pystr list option" where
  "resolve_target st p =
     (if p = [] then None
      else let cs = split_sep p; nm = last cs
           in if nm = [] \<or> nm = [46] \<or> nm = [46, 46] then None
              else (case walk st (start_dir st p) (butlast cs) of
                      None \<Rightarrow> None
                    | Some q \<Rightarrow> if kind_at st q = Some Dir then Some (q @ [nm]) else None))"

definition os_path_exists :: "os_state \<Rightarrow> pystr \<Rightarrow> bool" where
  "os_path_exists st p \<longleftrightarrow> resolve st p \<noteq> None"

definition os_path_isdir :: "os_state \<Rightarrow> pystr \<Rightarrow> bool" where
  "os_path_isdir st p \<longleftrightarrow>
     (case resolve st p of None \<Rightarrow> False | Some q \<Rightarrow> kind_at st q = Some Dir)"

definition os_path_isfile :: "os_state \<Rightarrow> pystr \<Rightarrow> bool" where
  "os_path_isfile st p \<longleftrightarrow>
     (case resolve st p of None \<Rightarrow> False | Some q \<Rightarrow> kind_at st q = Some File)"

text \<open>
  A directory entry as \<open>os.scandir\<close> yields it: its name, its path (the scanned path
  joined with the name) and whether it is a directory.
\<close>

record dir_entry =
  entry_name :: pystr
  entry_path :: pystr
  entry_is_dir :: bool

definition os_scandir :: "os_state \<Rightarrow> pystr \<Rightarrow> error + dir_entry list" where
  "os_scandir st p =
     (case resolve st p of
        None \<Rightarrow> Inl OSError
      | Some q \<Rightarrow>
          if kind_at st q = Some Dir
          then Inr (map (\<lambda>(r, k). \<lparr>entry_name = last r, entry_path = os_path_join p [last r],
                                    entry_is_dir = (k = Dir)\<rparr>) (children st q))
          else Inl OSError)"

definition os_listdir :: "os_state \<Rightarrow> pystr \<Rightarrow> error + pystr list" where
  "os_listdir st p =
     (case resolve st p of
        None \<Rightarrow> Inl OSError
      | Some q \<Rightarrow>
          if kind_at st q = Some Dir then Inr (map (\<lambda>(r, k). last r) (children st q))
          else Inl OSError)"

definition remove_entry :: "pystr list \<Rightarrow> os_state \<Rightarrow> os_state" where
  "remove_entry q st = st\<lparr>entries := filter (\<lambda>(r, k). r \<noteq> q) (entries st)\<rparr>"

definition add_entry :: "pystr list \<Rightarrow> kind \<Rightarrow> os_state \<Rightarrow> os_state" where
  "add_entry q k st = st\<lparr>entries := entries st @ [(q, k)]\<rparr>"

text \<open>\<open>os.rmdir\<close> removes an empty directory other than the root.\<close>

definition rmdir_at :: "os_state \<Rightarrow> pystr list \<Rightarrow> error + os_state" where
  "rmdir_at st q =
     (if q \<noteq> [] \<and> kind_at st q = Some Dir \<and> children st q = [] then Inr (remove_entry q st)
      else Inl OSError)"

definition os_rmdir :: "os_state \<Rightarrow> pystr \<Rightarrow> error + os_state" where
  "os_rmdir st p = (case resolve st p of None \<Rightarrow> Inl OSError | Some q \<Rightarrow> rmdir_at st q)"

definition os_mkdir :: "os_state \<Rightarrow> pystr \<Rightarrow> error + os_state" where
  "os_mkdir st p =
     (case resolve_target st p of
        None \<Rightarrow> (if os_path_exists st p then Inl FileExistsError else Inl OSError)
      | Some q \<Rightarrow> if kind_at st q \<noteq> None then Inl FileExistsError else Inr (add_entry q Dir st))"

text \<open>
  \<open>os.makedirs(name)\<close>: the head of the name is created first when it is missing
  (a \<open>FileExistsError\<close> there is ignored), then the directory itself.
\<close>

definition makedirs_split :: "pystr \<Rightarrow> pystr \<times> pystr" where
  "makedirs_split name =
     (if snd (os_path_split name) = [] then os_path_split (fst (os_path_split name))
      else os_path_split name)"

function os_makedirs :: "os_state \<Rightarrow> pystr \<Rightarrow> error + os_state" where
  "os_makedirs st name =
     (if fst (makedirs_split name) \<noteq> [] \<and> snd (makedirs_split name) \<noteq> [] \<and>
         \<not> os_path_exists st (fst (makedirs_split name))
      then (case os_makedirs st (fst (makedirs_split name)) of
              Inl e \<Rightarrow>
                if e = FileExistsError
                then (if snd (makedirs_split name) = [46] then Inr st else os_mkdir st name)
                else Inl e
            | Inr st1 \<Rightarrow>
                if snd (makedirs_split name) = [46] then Inr st1 else os_mkdir st1 name)
      else os_mkdir st name)"
  by pat_completeness auto
termination
proof -
  have rstrip_le: "length (rstrip c s) \<le> length s" for c :: nat and s
  proof -
    have "length (dropWhile (\<lambda>d. d = c) (rev s)) \<le> length (rev s)"
      by (rule length_dropWhile_le)
    then show ?thesis
      by (simp add: rstrip_def)
  qed
  have head_le: "length (fst (os_path_split p)) \<le> length p" for p
  proof -
    have "length (rstrip 47 (take i p)) \<le> length p" for i
      using rstrip_le [of 47 "take i p"] by simp
    then show ?thesis
      by (simp add: os_path_split_def Let_def)
  qed
  have head_less: "length (fst (os_path_split p)) < length p"
    if "snd (os_path_split p) \<noteq> []" for p
  proof -
    define i where "i = nat (rfind 47 p + 1)"
    from that have "i < length p"
      by (simp add: os_path_split_def Let_def i_def)
    moreover have "length (rstrip 47 (take i p)) \<le> length (take i p)"
      by (rule rstrip_le)
    ultimately show ?thesis
      by (simp add: os_path_split_def Let_def i_def [symmetric])
  qed
  have split_less: "length (fst (makedirs_split name)) < length name"
    if "snd (makedirs_split name) \<noteq> []" for name
  proof (cases "snd (os_path_split name) = []")
    case True
    with that have "length (fst (makedirs_split name)) < length (fst (os_path_split name))"
      by (simp add: makedirs_split_def head_less)
    also have "\<dots> \<le> length name"
      by (rule head_le)
    finally show ?thesis .
  next
    case False
    then show ?thesis
      by (simp add: makedirs_split_def head_less)
  qed
  show ?thesis
    by (relation "measure (\<lambda>(st, name). length name)") (auto simp: split_less)
qed

text \<open>
  \<open>os.rename\<close> on a POSIX system: a file silently replaces an existing file; a
  directory replaces only an empty directory and cannot be moved below itself.
\<close>

definition move_tree :: "pystr list \<Rightarrow> pystr list \<Rightarrow> os_state \<Rightarrow> os_state" where
  "move_tree qo qn st =
     st\<lparr>entries :=
          map (\<lambda>(r, k). if take (length qo) r = qo then (qn @ drop (length qo) r, k) else (r, k))
            (entries st)\<rparr>"

definition os_rename :: "os_state \<Rightarrow> pystr \<Rightarrow> pystr \<Rightarrow> error + os_state" where
  "os_rename st old new =
     (case resolve st old of
        None \<Rightarrow> Inl OSError
      | Some qo \<Rightarrow>
          (case resolve_target st new of
             None \<Rightarrow> Inl OSError
           | Some qn \<Rightarrow>
               if qo = [] then Inl OSError
               else if qo = qn then Inr st
               else if kind_at st qo = Some File then
                 (if kind_at st qn = Some Dir then Inl OSError
                  else Inr (add_entry qn File (remove_entry qn (remove_entry qo st))))
               else if take (length qo) qn = qo then Inl OSError
               else if kind_at st qn = Some File then Inl OSError
               else if kind_at st qn = Some Dir \<and> children st qn \<noteq> [] then Inl OSError
               else Inr (move_tree qo qn (remove_entry qn st))))"

text \<open>
  \<open>os.removedirs(name)\<close>: remove the directory, then its ancestors from the right for
  as long as that succeeds.
\<close>

function removedirs_loop :: "os_state \<Rightarrow> pystr \<Rightarrow> pystr \<Rightarrow> os_state" where
  "removedirs_loop st head tail =
     (if head \<noteq> [] \<and> tail \<noteq> [] then
        (case os_rmdir st head of
           Inl e \<Rightarrow> st
         | Inr st1 \<Rightarrow>
             removedirs_loop st1 (fst (os_path_split head)) (snd (os_path_split head)))
      else st)"
  by pat_completeness auto
termination
proof -
  have rstrip_le: "length (rstrip c s) \<le> length s" for c :: nat and s
  proof -
    have "length (dropWhile (\<lambda>d. d = c) (rev s)) \<le> length (rev s)"
      by (rule length_dropWhile_le)
    then show ?thesis
      by (simp add: rstrip_def)
  qed
  have head_le: "length (fst (os_path_split p)) \<le> length p" for p
  proof -
    have "length (rstrip 47 (take i p)) \<le> length p" for i
      using rstrip_le [of 47 "take i p"] by simp
    then show ?thesis
      by (simp add: os_path_split_def Let_def)
  qed
  have head_less: "length (fst (os_path_split p)) < length p"
    if "snd (os_path_split p) \<noteq> []" for p
  proof -
    define i where "i = nat (rfind 47 p + 1)"
    from that have "i < length p"
      by (simp add: os_path_split_def Let_def i_def)
    moreover have "length (rstrip 47 (take i p)) \<le> length (take i p)"
      by (rule rstrip_le)
    ultimately show ?thesis
      by (simp add: os_path_split_def Let_def i_def [symmetric])
  qed
  show ?thesis
  proof (relation "measure (\<lambda>(st, head, tail). 2 * length head + (if tail = [] then 0 else 1))")
    show "wf (measure (\<lambda>(st, head, tail). 2 * length head + (if tail = [] then 0 else 1)))"
      by simp
  next
    fix st :: os_state and head tail :: pystr and st1 :: os_state
    assume "head \<noteq> [] \<and> tail \<noteq> []"
    then have tail: "tail \<noteq> []" by simp
    show "((st1, fst (os_path_split head), snd (os_path_split head)), (st, head, tail))
            \<in> measure (\<lambda>(st, head, tail). 2 * length head + (if tail = [] then 0 else 1))"
    proof (cases "snd (os_path_split head) = []")
      case True
      with tail head_le [of head] show ?thesis
        by (simp add: case_prod_beta)
    next
      case False
      with tail head_less [of head] show ?thesis
        by (simp add: case_prod_beta)
    qed
  qed
qed

definition os_removedirs :: "os_state \<Rightarrow> pystr \<Rightarrow> error + os_state" where
  "os_removedirs st name =
     (case os_rmdir st name of
        Inl e \<Rightarrow> Inl e
      | Inr st1 \<Rightarrow>
          Inr (removedirs_loop st1 (fst (makedirs_split name)) (snd (makedirs_split name))))"

text \<open>
  \<open>os.renames(old, new)\<close>, called with the list of its positional arguments: without
  exactly two of them the call itself raises \<open>TypeError\<close>. Otherwise the missing
  directories of the new name are made, the entry is renamed, and the directories of the
  old name that became empty are pruned (a failure of the pruning is ignored).
\<close>

definition renames2 :: "os_state \<Rightarrow> pystr \<Rightarrow> pystr \<Rightarrow> error + os_state" where
  "renames2 st old new =
     (case (if fst (os_path_split new) \<noteq> [] \<and> snd (os_path_split new) \<noteq> [] \<and>
               \<not> os_path_exists st (fst (os_path_split new))
            then os_makedirs st (fst (os_path_split new)) else Inr st) of
        Inl e \<Rightarrow> Inl e
      | Inr st1 \<Rightarrow>
          (case os_rename st1 old new of
             Inl e \<Rightarrow> Inl e
           | Inr st2 \<Rightarrow>
               if fst (os_path_split old) \<noteq> [] \<and> snd (os_path_split old) \<noteq> []
               then (case os_removedirs st2 (fst (os_path_split old)) of
                       Inl e \<Rightarrow> Inr st2
                     | Inr st3 \<Rightarrow> Inr st3)
               else Inr st2))"

definition os_renames :: "os_state \<Rightarrow> pystr list \<Rightarrow> error + os_state" where
  "os_renames st args = (case args of [old, new] \<Rightarrow> renames2 st old new | _ \<Rightarrow> Inl TypeError)"

definition print :: "pystr \<Rightarrow> os_state \<Rightarrow> os_state" where
  "print line st = st\<lparr>stdout := stdout st @ [line]\<rparr>"

section \<open>The Collision Resolver\<close>

text \<open>
  The loop \<open>for i in range(1, 1000000)\<close> of \<open>set_dest_path\<close>: the first \<open>i\<close> for
  which the probed path does not exist, if there is one. The probed path is the
  concatenation of \<open>path\<close>, \<open>file_name\<close>, an underscore, \<open>i\<close> and \<open>ext\<close>, as the
  f-string of the source builds it.
\<close>

function first_free :: "os_state \<Rightarrow> pystr \<Rightarrow> pystr \<Rightarrow> pystr \<Rightarrow> nat \<Rightarrow> nat option" where
  "first_free st path file_name ext i =
     (if 1000000 \<le> i then None
      else if \<not> os_path_exists st (path @ file_name @ [95] @ str_of_nat i @ ext) then Some i
      else first_free st path file_name ext (i + 1))"
  by pat_completeness auto
termination
  by (relation "measure (\<lambda>(st, path, file_name, ext, i). 1000000 - i)") auto

definition set_dest_path :: "os_state \<Rightarrow> pystr \<Rightarrow> pystr \<Rightarrow> pystr \<Rightarrow> pystr" where
  "set_dest_path st path file_name ext =
     (let file_name' =
            (if os_path_exists st (os_path_join path [file_name @ ext])
             then (case first_free st path file_name ext 1 of
                     Some i \<Rightarrow> file_name @ [95] @ str_of_nat i
                   | None \<Rightarrow> file_name)
             else file_name)
      in os_path_join path [file_name' @ ext])"

text \<open>
  A call of \<open>set_dest_path\<close> with the list of its positional arguments: \<open>path\<close> and
  \<open>file_name\<close> are required, \<open>ext\<close> defaults to the empty string.
\<close>

definition call_set_dest_path :: "os_state \<Rightarrow> pystr list \<Rightarrow> error + pystr" where
  "call_set_dest_path st args =
     (case args of
        [path, file_name] \<Rightarrow> Inr (set_dest_path st path file_name [])
      | [path, file_name, ext] \<Rightarrow> Inr (set_dest_path st path file_name ext)
      | _ \<Rightarrow> Inl TypeError)"

section \<open>The command line\<close>

text \<open>
  \<open>get_path\<close> reads \<open>sys.argv\<close>, here the program name and the list of the arguments
  after it. \<open>sys.exit\<close> with a message ends the program with exit status 1.
\<close>

definition exit_help :: "pystr \<Rightarrow> pystr" where
  "exit_help prog =
     str ''Stars program with command like: '' @ prog @
     str '' /user/folder_to_sort/ (path to folder you want to sort).''"

definition get_path :: "os_state \<Rightarrow> pystr \<Rightarrow> pystr list \<Rightarrow> error + pystr" where
  "get_path st prog args =
     (if length (prog # args) < 2
      then Inl (SystemExit (str ''Too few command-line arguments.'' @ [10] @ exit_help prog))
      else if length (prog # args) > 2
      then Inl (SystemExit (str ''Too many command line arguments.'' @ [10] @ exit_help prog))
      else let folder_path = (prog # args) ! 1
           in if os_path_exists st (os_path_dirname folder_path) \<and> os_path_isdir st folder_path
              then Inr folder_path
              else Inl (SystemExit (folder_path @ str '' is not a proper folder path.'' @ [10] @
                                    exit_help prog)))"

definition exit_status :: "error + 'a \<Rightarrow> nat" where
  "exit_status r = (case r of Inl e \<Rightarrow> 1 | Inr v \<Rightarrow> 0)"

section \<open>The Directory Preparer\<close>

definition category_dirs :: "pystr list" where
  "category_dirs = map str [''images'', ''video'', ''documents'', ''audio'', ''archives'']"

text \<open>
  The inner loop of \<open>prepare_folder\<close> over the files collected so far. The source calls
  \<open>set_dest_path\<close> there with one positional argument, the joined path.
\<close>

fun clash_loop :: "os_state \<Rightarrow> pystr \<Rightarrow> pystr \<Rightarrow> pystr \<Rightarrow> dir_entry list \<Rightarrow> error + pystr" where
  "clash_loop st path dir_name dir_path [] = Inr dir_path"
| "clash_loop st path dir_name dir_path (entry # rest) =
     (if dir_name = entry_name entry
      then (case call_set_dest_path st [os_path_join path [dir_name]] of
              Inl e \<Rightarrow> Inl e
            | Inr p \<Rightarrow> clash_loop st path dir_name p rest)
      else clash_loop st path dir_name dir_path rest)"

definition not_copied_directory :: "pystr \<Rightarrow> pystr" where
  "not_copied_directory dir_name =
     str ''Directory '' @ dir_name @
     str '' has not been copied, because too many directories with that name already exist.''"

text \<open>
  The loop of \<open>prepare_folder\<close> over the scanned entries, with the lists
  \<open>subdirectories\<close> and \<open>files\<close> built so far. An exception ends the loop; the state
  reached is returned with it. The source calls \<open>os.renames\<close> with one positional
  argument, the join of \<open>path\<close>, the name of the entry and \<open>dir_path\<close>.
\<close>

fun prepare_loop ::
  "(nat \<Rightarrow> bool) \<Rightarrow> pystr \<Rightarrow> dir_entry list \<Rightarrow> pystr list \<Rightarrow> dir_entry list \<Rightarrow> os_state \<Rightarrow>
     (error + pystr list \<times> dir_entry list) \<times> os_state" where
  "prepare_loop U path [] subdirectories files st = (Inr (subdirectories, files), st)"
| "prepare_loop U path (item # items) subdirectories files st =
     (if entry_is_dir item then
        (case os_listdir st (entry_path item) of
           Inl e \<Rightarrow> (Inl e, st)
         | Inr temp_list \<Rightarrow>
             (case (if length temp_list = 0 then os_rmdir st (entry_path item) else Inr st) of
                Inl e \<Rightarrow> (Inl e, st)
              | Inr st1 \<Rightarrow>
                  if entry_name item \<notin> set category_dirs then
                    (let dir_name = normalize_name U (entry_name item);
                         dir_path = os_path_join path [dir_name]
                     in if dir_name \<noteq> entry_name item then
                          (case clash_loop st1 path dir_name dir_path files of
                             Inl e \<Rightarrow> (Inl e, st1)
                           | Inr dir_path' \<Rightarrow>
                               (case os_renames st1
                                       [os_path_join path [entry_name item, dir_path']] of
                                  Inl e \<Rightarrow>
                                    if e = FileExistsError
                                    then prepare_loop U path items subdirectories files
                                           (print (not_copied_directory dir_name) st1)
                                    else (Inl e, st1)
                                | Inr st2 \<Rightarrow>
                                    prepare_loop U path items (subdirectories @ [dir_path'])
                                      files st2))
                        else prepare_loop U path items (subdirectories @ [dir_path]) files st1)
                  else prepare_loop U path items subdirectories files st1))
      else prepare_loop U path items subdirectories (files @ [item]) st)"

text \<open>
  \<open>prepare_folder\<close> returns the subdirectories and the dictionary with the one key
  \<open>path\<close>, here the pair of \<open>path\<close> and its files.
\<close>

definition prepare_folder ::
  "(nat \<Rightarrow> bool) \<Rightarrow> os_state \<Rightarrow> pystr \<Rightarrow>
     (error + pystr list \<times> (pystr \<times> dir_entry list)) \<times> os_state" where
  "prepare_folder U st path =
     (case os_scandir st path of
        Inl e \<Rightarrow> (Inl e, st)
      | Inr folder_items \<Rightarrow>
          (case prepare_loop U path folder_items [] [] st of
             (Inl e, st') \<Rightarrow> (Inl e, st')
           | (Inr (subdirectories, files), st') \<Rightarrow> (Inr (subdirectories, (path, files)), st')))"

section \<open>The File Sorter\<close>

text \<open>The \<open>match\<close> statement of \<open>move_files\<close> on the extension, in the order of its cases.\<close>

definition file_type_of :: "pystr \<Rightarrow> pystr" where
  "file_type_of ext =
     (if ext \<in> set (map str [''.jpeg'', ''.png'', ''.jpg'', ''.svg'']) then str ''images''
      else if ext \<in> set (map str [''.avi'', ''.mp4'', ''.mov'', ''.mkv'']) then str ''video''
      else if ext \<in> set (map str [''.doc'', ''.docx'', ''.txt'', ''.pdf'', ''.xlsx'', ''.pptx''])
      then str ''documents''
      else if ext \<in> set (map str [''.mp3'', ''.ogg'', ''.wav'', ''.amr'']) then str ''audio''
      else if ext \<in> set (map str [''.zip'', ''.gz'', ''.tar'']) then str ''archives''
      else str ''unsorted'')"

text \<open>
  \<open>shutil.unpack_archive\<close> finds the format of an archive from the end of its file
  name and raises \<open>ReadError\<close> for a name that no registered format claims, before it
  touches anything. What the unpacking of a known format does depends on the contents
  of the file: it is the parameter \<open>extract\<close>, which returns the state that it reaches
  with the exception that it raised, if any.
\<close>

definition endswith :: "pystr \<Rightarrow> pystr \<Rightarrow> bool" where
  "endswith s suffix \<longleftrightarrow>
     length suffix \<le> length s \<and> drop (length s - length suffix) s = suffix"

definition unpack_suffixes :: "pystr list" where
  "unpack_suffixes =
     map str [''.tar.bz2'', ''.tbz2'', ''.tar.gz'', ''.tgz'', ''.tar'', ''.zip'', ''.tar.xz'',
              ''.txz'']"

definition shutil_unpack_archive ::
  "(os_state \<Rightarrow> pystr \<Rightarrow> pystr \<Rightarrow> error option \<times> os_state) \<Rightarrow>
     os_state \<Rightarrow> pystr \<Rightarrow> pystr \<Rightarrow> error option \<times> os_state" where
  "shutil_unpack_archive extract st filename extract_dir =
     (if list_ex (endswith filename) unpack_suffixes then extract st filename extract_dir
      else (Some ReadError, st))"

text \<open>The two dictionaries of \<open>move_files\<close>, from a category to its extensions and records.\<close>

type_synonym extensions = "pystr \<rightharpoonup> pystr set"
type_synonym paths = "pystr \<rightharpoonup> pystr list"

definition extensions_init :: extensions where
  "extensions_init =
     [str ''images'' \<mapsto> {}, str ''documents'' \<mapsto> {}, str ''audio'' \<mapsto> {}, str ''video'' \<mapsto> {},
      str ''archives'' \<mapsto> {}, str ''unsorted'' \<mapsto> {}]"

definition paths_init :: paths where
  "paths_init =
     [str ''images'' \<mapsto> [], str ''documents'' \<mapsto> [], str ''audio'' \<mapsto> [], str ''video'' \<mapsto> [],
      str ''archives'' \<mapsto> [], str ''unsorted'' \<mapsto> []]"

definition not_copied_file :: "pystr \<Rightarrow> pystr \<Rightarrow> pystr" where
  "not_copied_file file_name ext =
     str ''File '' @ file_name @ ext @
     str '' has not been copied, because too many files with that name already exist in the destination directory.''"

text \<open>
  The end of the loop body of \<open>move_files\<close>: the record of the file and its extension
  are added to the dictionaries, under the keys that these have.
\<close>

definition add_record :: "pystr \<Rightarrow> pystr \<Rightarrow> pystr \<Rightarrow> pystr \<Rightarrow> pystr \<Rightarrow> paths \<Rightarrow> paths" where
  "add_record path file_type name dest_path ext paths =
     (case paths file_type of
        None \<Rightarrow> paths
      | Some temp_list \<Rightarrow>
          paths(file_type \<mapsto>
            temp_list @
              [if file_type = str ''unsorted'' then os_path_join path [file_type, name]
               else os_path_join path [file_type, name] @ str '' has moved to: '' @ dest_path]))"

definition add_extension :: "pystr \<Rightarrow> pystr \<Rightarrow> extensions \<Rightarrow> extensions" where
  "add_extension file_type ext extensions =
     (case extensions file_type of
        None \<Rightarrow> extensions
      | Some temp_set \<Rightarrow> extensions(file_type \<mapsto> insert ext temp_set))"

text \<open>
  The move of a categorized file, after the \<open>match\<close> statement: the destination is asked
  from the Collision Resolver and the file renamed to it. \<open>None\<close> is the \<open>continue\<close>
  after a caught \<open>FileExistsError\<close>; otherwise the destination is returned.
\<close>

definition relocate ::
  "pystr \<Rightarrow> pystr \<Rightarrow> pystr \<Rightarrow> pystr \<Rightarrow> pystr \<Rightarrow> os_state \<Rightarrow> (error + pystr option) \<times> os_state" where
  "relocate path file_type file_name ext name st =
     (let dest_path = set_dest_path st (os_path_join path [file_type]) file_name ext
      in case os_renames st [os_path_join path [name], dest_path] of
           Inl e \<Rightarrow>
             if e = FileExistsError
             then (Inr None, print (not_copied_file file_name ext) st)
             else (Inl e, st)
         | Inr st' \<Rightarrow> (Inr (Some dest_path), st'))"

text \<open>
  One turn of the loop of \<open>move_files\<close> over the files of \<open>path\<close>, on the state and
  the two dictionaries. An archive is unpacked inside the \<open>match\<close> statement, that is
  before the file is moved.
\<close>

definition move_file ::
  "(nat \<Rightarrow> bool) \<Rightarrow> (os_state \<Rightarrow> pystr \<Rightarrow> pystr \<Rightarrow> error option \<times> os_state) \<Rightarrow> pystr \<Rightarrow>
     dir_entry \<Rightarrow> extensions \<times> paths \<Rightarrow> os_state \<Rightarrow> (error + extensions \<times> paths) \<times> os_state" where
  "move_file U extract path file report st =
     (let file_name = normalize_name U (fst (os_path_splitext (entry_name file)));
          ext = snd (os_path_splitext (entry_name file));
          file_type = file_type_of ext
      in case (if file_type = str ''archives''
               then shutil_unpack_archive extract st (os_path_join path [entry_name file])
                      (os_path_join path [file_type, file_name])
               else (None, st)) of
           (Some e, st1) \<Rightarrow> (Inl e, st1)
         | (None, st1) \<Rightarrow>
             if file_type \<noteq> str ''unsorted'' then
               (case relocate path file_type file_name ext (entry_name file) st1 of
                  (Inl e, st2) \<Rightarrow> (Inl e, st2)
                | (Inr None, st2) \<Rightarrow> (Inr report, st2)
                | (Inr (Some dest_path), st2) \<Rightarrow>
                    (Inr (add_extension file_type ext (fst report),
                          add_record path file_type (entry_name file) dest_path ext (snd report)),
                     st2))
             else (Inr (add_extension file_type ext (fst report),
                        add_record path file_type (entry_name file) [] ext (snd report)),
                   st1))"

fun move_loop ::
  "(nat \<Rightarrow> bool) \<Rightarrow> (os_state \<Rightarrow> pystr \<Rightarrow> pystr \<Rightarrow> error option \<times> os_state) \<Rightarrow> pystr \<Rightarrow>
     dir_entry list \<Rightarrow> extensions \<times> paths \<Rightarrow> os_state \<Rightarrow> (error + extensions \<times> paths) \<times> os_state" where
  "move_loop U extract path [] report st = (Inr report, st)"
| "move_loop U extract path (file # files) report st =
     (case move_file U extract path file report st of
        (Inl e, st') \<Rightarrow> (Inl e, st')
      | (Inr report', st') \<Rightarrow> move_loop U extract path files report' st')"

text \<open>
  \<open>move_files\<close> takes the dictionary with one key made by \<open>prepare_folder\<close> and returns
  the two dictionaries and the path.
\<close>

definition move_files ::
  "(nat \<Rightarrow> bool) \<Rightarrow> (os_state \<Rightarrow> pystr \<Rightarrow> pystr \<Rightarrow> error option \<times> os_state) \<Rightarrow>
     pystr \<times> dir_entry list \<Rightarrow> os_state \<Rightarrow> (error + extensions \<times> paths \<times> pystr) \<times> os_state" where
  "move_files U extract files_dict st =
     (case move_loop U extract (fst files_dict) (snd files_dict) (extensions_init, paths_init) st of
        (Inl e, st') \<Rightarrow> (Inl e, st')
      | (Inr (extensions, paths), st') \<Rightarrow> (Inr (extensions, paths, fst files_dict), st'))"

section \<open>Example states\<close>

text \<open>
  A directory \<open>/a/images\<close> that holds \<open>photo.jpg\<close> and \<open>photo_1.jpg\<close>.
\<close>

definition st_collision :: os_state where
  "st_collision =
     \<lparr>entries =
        [([str ''a''], Dir), ([str ''a'', str ''images''], Dir),
         ([str ''a'', str ''images'', str ''photo.jpg''], File),
         ([str ''a'', str ''images'', str ''photo_1.jpg''], File)],
      cwd = [], stdout = []\<rparr>"

text \<open>A directory \<open>/r\<close> whose only entry is the empty directory \<open>old_empty\<close>.\<close>

definition st_empty_dir :: os_state where
  "st_empty_dir =
     \<lparr>entries = [([str ''r''], Dir), ([str ''r'', str ''old_empty''], Dir)],
      cwd = [], stdout = []\<rparr>"

text \<open>A directory \<open>/r\<close> with the category directory \<open>images\<close>, which holds \<open>a.jpg\<close>.\<close>

definition st_category :: os_state where
  "st_category =
     \<lparr>entries =
        [([str ''r''], Dir), ([str ''r'', str ''images''], Dir),
         ([str ''r'', str ''images'', str ''a.jpg''], File)],
      cwd = [], stdout = []\<rparr>"

text \<open>A directory \<open>/r\<close> with the directory \<open>my dir\<close>, which holds \<open>a.jpg\<close>.\<close>

definition st_my_dir :: os_state where
  "st_my_dir =
     \<lparr>entries =
        [([str ''r''], Dir), ([str ''r'', str ''my dir''], Dir),
         ([str ''r'', str ''my dir'', str ''a.jpg''], File)],
      cwd = [], stdout = []\<rparr>"

text \<open>A directory \<open>/r\<close> with the one file \<open>notes.gz\<close>.\<close>

definition st_gz :: os_state where
  "st_gz = \<lparr>entries = [([str ''r''], Dir), ([str ''r'', str ''notes.gz''], File)],
            cwd = [], stdout = []\<rparr>"

text \<open>A directory \<open>/r\<close> with the files \<open>photo.jpg\<close> and \<open>readme.xyz\<close>.\<close>

definition st_two_files :: os_state where
  "st_two_files =
     \<lparr>entries =
        [([str ''r''], Dir), ([str ''r'', str ''photo.jpg''], File),
         ([str ''r'', str ''readme.xyz''], File)],
      cwd = [], stdout = []\<rparr>"

definition file_entry :: "pystr \<Rightarrow> pystr \<Rightarrow> dir_entry" where
  "file_entry path name =
     \<lparr>entry_name = name, entry_path = os_path_join path [name], entry_is_dir = False\<rparr>"

text \<open>The working directory \<open>/home\<close> with the directory \<open>photos\<close> in it.\<close>

definition st_photos :: os_state where
  "st_photos =
     \<lparr>entries = [([str ''home''], Dir), ([str ''home'', str ''photos''], Dir)],
      cwd = [str ''home''], stdout = []\<rparr>"

text \<open>The state \<open>st_two_files\<close> after \<open>photo.jpg\<close> has been moved to \<open>images\<close>.\<close>

definition st_two_files_sorted :: os_state where
  "st_two_files_sorted =
     \<lparr>entries =
        [([str ''r''], Dir), ([str ''r'', str ''readme.xyz''], File),
         ([str ''r'', str ''images''], Dir),
         ([str ''r'', str ''images'', str ''photo.jpg''], File)],
      cwd = [], stdout = []\<rparr>"

section \<open>Properties of the Normalizer\<close>

lemma translate_char_cases:
  "translate_char c =
     (if c = 261 then [97] else if c = 260 then [65] else if c = 263 then [99]
      else if c = 262 then [67] else if c = 281 then [101] else if c = 280 then [69]
      else if c = 322 then [108] else if c = 321 then [76] else if c = 324 then [110]
      else if c = 323 then [78] else if c = 243 then [111] else if c = 211 then [79]
      else if c = 347 then [115] else if c = 346 then [346] else if c = 378 then [122]
      else if c = 379 then [90] else if c = 380 then [122] else [c])"
  by (simp add: translate_char_def polish_chars_def polish_chars_items_def)

lemma translate_char_stable:
  "d \<in> set (translate_char c) \<Longrightarrow> translate_char d = [d]"
  by (simp add: translate_char_cases split: if_splits)

lemma translate_stable:
  "d \<in> set (translate name) \<Longrightarrow> translate_char d = [d]"
  by (auto simp: translate_def dest: translate_char_stable)

lemma translate_fixed:
  "(\<And>c. c \<in> set s \<Longrightarrow> translate_char c = [c]) \<Longrightarrow> translate s = s"
  by (induction s) (simp_all add: translate_def)

lemma set_re_sub_W: "set (re_sub_W U s) \<subseteq> insert 95 (set s)"
proof (induction U s rule: re_sub_W.induct)
  case (1 U)
  show ?case by simp
next
  case (2 U c cs)
  show ?case
  proof (cases "is_word U c")
    case True
    with 2 show ?thesis by auto
  next
    case False
    have "set (dropWhile (\<lambda>d. \<not> is_word U d) cs) \<subseteq> set cs"
      by (rule set_dropWhileD [THEN subsetI])
    with 2 False show ?thesis by auto
  qed
qed

lemma re_sub_W_word: "c \<in> set (re_sub_W U s) \<Longrightarrow> is_word U c"
proof (induction U s rule: re_sub_W.induct)
  case (1 U)
  then show ?case by simp
next
  case (2 U d cs)
  have underscore: "is_word U 95"
    by (simp add: is_word_def ascii_word_def)
  show ?case
  proof (cases "is_word U d")
    case True
    with 2 show ?thesis by auto
  next
    case False
    with 2 underscore show ?thesis by auto
  qed
qed

lemma re_sub_W_fixed: "(\<And>c. c \<in> set s \<Longrightarrow> is_word U c) \<Longrightarrow> re_sub_W U s = s"
  by (induction s) simp_all

text \<open>
  C6. The Normalizer is idempotent: normalizing a normalized name gives the same name,
  whatever the Unicode database says about the code points above 127.
\<close>

theorem normalize_idempotent: "normalize_name U (normalize_name U x) = normalize_name U x"
proof -
  let ?y = "normalize_name U x"
  have "translate_char c = [c]" if "c \<in> set ?y" for c
  proof -
    from that set_re_sub_W [of U "translate x"]
    have "c = 95 \<or> c \<in> set (translate x)"
      by (auto simp: normalize_name_def)
    then show ?thesis
      by (auto simp: translate_char_cases dest: translate_stable)
  qed
  then have "translate ?y = ?y"
    by (rule translate_fixed)
  moreover have "re_sub_W U ?y = ?y"
    by (rule re_sub_W_fixed) (auto simp: normalize_name_def dest: re_sub_W_word)
  ultimately show ?thesis
    by (simp add: normalize_name_def [of U "normalize_name U x"])
qed

section \<open>Evaluation on the example states\<close>

lemmas path_defs = os_path_join_def join2_def os_path_split_def os_path_dirname_def
  os_path_splitext_def rfind_def rstrip_def str_def

lemmas fs_defs = os_path_exists_def os_path_isdir_def os_path_isfile_def resolve_def
  resolve_target_def start_dir_def kind_at_def children_def os_scandir_def os_listdir_def
  os_rmdir_def rmdir_at_def remove_entry_def add_entry_def os_mkdir_def os_rename_def
  os_renames_def renames2_def os_removedirs_def makedirs_split_def print_def

lemmas normalize_defs = normalize_name_def translate_def translate_char_def polish_chars_def
  polish_chars_items_def is_word_def ascii_word_def

text \<open>
  C1. The Collision Resolver is asked for \<open>photo.jpg\<close> in \<open>/a/images\<close>, the way
  \<open>move_files\<close> asks (a path without a final separator), where \<open>photo.jpg\<close> and
  \<open>photo_1.jpg\<close> exist. Its loop probes \<open>/a/imagesphoto_1.jpg\<close>, which does not exist, and
  it returns \<open>/a/images/photo_1.jpg\<close>, which exists; the first free candidate is
  \<open>photo_2.jpg\<close>.
\<close>

theorem set_dest_path_returns_existing_path:
  "set_dest_path st_collision (str ''/a/images'') (str ''photo'') (str ''.jpg'') =
     str ''/a/images/photo_1.jpg'' \<and>
   os_path_exists st_collision (str ''/a/images/photo_1.jpg'') \<and>
   \<not> os_path_exists st_collision (str ''/a/images/photo_2.jpg'')"
  by (simp add: set_dest_path_def st_collision_def path_defs fs_defs)

text \<open>
  C2. The Directory Preparer on \<open>/r\<close>, whose only entry is the empty directory
  \<open>old_empty\<close>: the directory is removed, and its path is returned in the list of the
  subdirectories all the same.
\<close>

theorem prepare_folder_returns_removed_directory:
  "prepare_folder latin_alnum st_empty_dir (str ''/r'') =
     (Inr ([str ''/r/old_empty''], (str ''/r'', [])),
      st_empty_dir\<lparr>entries := [([str ''r''], Dir)]\<rparr>) \<and>
   \<not> os_path_exists (st_empty_dir\<lparr>entries := [([str ''r''], Dir)]\<rparr>) (str ''/r/old_empty'')"
  by (simp add: prepare_folder_def st_empty_dir_def path_defs fs_defs category_dirs_def
      normalize_defs)

text \<open>
  C4. The Directory Preparer on \<open>/r\<close> with the directory \<open>my dir\<close>, whose normalized
  name \<open>my_dir\<close> differs: the call of \<open>os.renames\<close> raises \<open>TypeError\<close>, the directory
  is not moved and the run does not continue.
\<close>

theorem prepare_folder_rename_raises_TypeError:
  "prepare_folder latin_alnum st_my_dir (str ''/r'') = (Inl TypeError, st_my_dir) \<and>
   normalize_name latin_alnum (str ''my dir'') = str ''my_dir''"
  by (simp add: prepare_folder_def st_my_dir_def path_defs fs_defs category_dirs_def
      normalize_defs)

text \<open>
  C5. The Normalizer on the one-letter name U+015A (a capital S with acute): the table
  maps the letter to itself and the letter is a word character, so the output is the
  letter, which is not an ASCII letter, digit or underscore. The same holds for U+0179,
  which the table does not have.
\<close>

theorem normalize_keeps_non_ascii_letter:
  "normalize_name latin_alnum [346] = [346] \<and> \<not> ascii_word 346 \<and>
   normalize_name latin_alnum [377] = [377] \<and> \<not> ascii_word 377"
  by (simp add: normalize_defs latin_alnum_def)

text \<open>
  C8. The File Sorter on \<open>/r\<close> with the file \<open>notes.gz\<close>: the extension is an archive
  extension, the archive is unpacked before the move, the unpacking raises
  \<open>ReadError\<close> for a name that no archive format claims, and the file is not moved.
\<close>

theorem move_files_gz_not_moved:
  "move_files latin_alnum extract (str ''/r'', [file_entry (str ''/r'') (str ''notes.gz'')]) st_gz =
     (Inl ReadError, st_gz) \<and>
   file_type_of (snd (os_path_splitext (str ''notes.gz''))) = str ''archives'' \<and>
   os_path_isfile st_gz (str ''/r/notes.gz'') \<and>
   \<not> os_path_exists st_gz (str ''/r/archives/notes.gz'')"
  by (simp add: move_files_def move_file_def file_entry_def file_type_of_def
      shutil_unpack_archive_def unpack_suffixes_def endswith_def st_gz_def path_defs fs_defs)

lemma photo_jpg_parts:
  "normalize_name latin_alnum (fst (os_path_splitext (str ''photo.jpg''))) = str ''photo''"
  "snd (os_path_splitext (str ''photo.jpg'')) = str ''.jpg''"
  "file_type_of (str ''.jpg'') = str ''images''"
  by (simp_all add: file_type_of_def normalize_defs path_defs)

lemma readme_xyz_parts:
  "snd (os_path_splitext (str ''readme.xyz'')) = str ''.xyz''"
  "file_type_of (str ''.xyz'') = str ''unsorted''"
  by (simp_all add: file_type_of_def path_defs)

lemma category_names_differ:
  "str ''images'' \<noteq> str ''archives''" "str ''images'' \<noteq> str ''unsorted''"
  "str ''unsorted'' \<noteq> str ''archives''" "str ''unsorted'' \<noteq> str ''images''"
  by (simp_all add: str_def)

lemma relocate_photo_jpg:
  "relocate (str ''/r'') (str ''images'') (str ''photo'') (str ''.jpg'') (str ''photo.jpg'')
     st_two_files = (Inr (Some (str ''/r/images/photo.jpg'')), st_two_files_sorted)"
  by (simp add: relocate_def set_dest_path_def st_two_files_def st_two_files_sorted_def
      path_defs fs_defs)

lemma move_file_photo_jpg:
  "move_file latin_alnum extract (str ''/r'') (file_entry (str ''/r'') (str ''photo.jpg''))
     report st_two_files =
   (Inr (add_extension (str ''images'') (str ''.jpg'') (fst report),
         add_record (str ''/r'') (str ''images'') (str ''photo.jpg'')
           (str ''/r/images/photo.jpg'') (str ''.jpg'') (snd report)),
    st_two_files_sorted)"
  by (simp add: move_file_def Let_def file_entry_def relocate_photo_jpg photo_jpg_parts
      category_names_differ)

lemma move_file_readme_xyz:
  "move_file latin_alnum extract (str ''/r'') (file_entry (str ''/r'') (str ''readme.xyz''))
     report st =
   (Inr (add_extension (str ''unsorted'') (str ''.xyz'') (fst report),
         add_record (str ''/r'') (str ''unsorted'') (str ''readme.xyz'') [] (str ''.xyz'')
           (snd report)),
    st)"
  by (simp add: move_file_def Let_def file_entry_def readme_xyz_parts category_names_differ)

lemma records_of_two_files:
  "add_record (str ''/r'') (str ''unsorted'') (str ''readme.xyz'') [] (str ''.xyz'')
     (add_record (str ''/r'') (str ''images'') (str ''photo.jpg'') (str ''/r/images/photo.jpg'')
        (str ''.jpg'') paths_init) (str ''images'') =
     Some [str ''/r/images/photo.jpg has moved to: /r/images/photo.jpg'']"
  "add_record (str ''/r'') (str ''unsorted'') (str ''readme.xyz'') [] (str ''.xyz'')
     (add_record (str ''/r'') (str ''images'') (str ''photo.jpg'') (str ''/r/images/photo.jpg'')
        (str ''.jpg'') paths_init) (str ''unsorted'') =
     Some [str ''/r/unsorted/readme.xyz'']"
  by (simp_all add: add_record_def paths_init_def path_defs)

text \<open>
  C9. The File Sorter on \<open>/r\<close> with the files \<open>photo.jpg\<close> and \<open>readme.xyz\<close>: the
  record of the moved file names \<open>/r/images/photo.jpg\<close> as what was moved, not the source
  \<open>/r/photo.jpg\<close>; the record of the unsorted file is \<open>/r/unsorted/readme.xyz\<close>, which
  does not exist, not its path \<open>/r/readme.xyz\<close>.
\<close>

theorem move_files_records_wrong_source:
  "(case move_files latin_alnum extract
           (str ''/r'', [file_entry (str ''/r'') (str ''photo.jpg''),
                         file_entry (str ''/r'') (str ''readme.xyz'')]) st_two_files of
      (Inr (extensions, paths, p), st') \<Rightarrow>
         paths (str ''images'') =
           Some [str ''/r/images/photo.jpg has moved to: /r/images/photo.jpg''] \<and>
         paths (str ''unsorted'') = Some [str ''/r/unsorted/readme.xyz''] \<and>
         os_path_isfile st' (str ''/r/readme.xyz'') \<and>
         \<not> os_path_exists st' (str ''/r/unsorted/readme.xyz'')
    | (Inl e, st') \<Rightarrow> False)"
proof -
  have "os_path_isfile st_two_files_sorted (str ''/r/readme.xyz'')"
    and "\<not> os_path_exists st_two_files_sorted (str ''/r/unsorted/readme.xyz'')"
    by (simp_all add: st_two_files_sorted_def path_defs fs_defs)
  then show ?thesis
    by (simp add: move_files_def move_file_photo_jpg move_file_readme_xyz records_of_two_files)
qed

section \<open>The command line\<close>

lemma dirname_bare: "47 \<notin> set a \<Longrightarrow> os_path_dirname a = []"
  by (simp add: os_path_dirname_def rfind_def)

lemma not_exists_empty: "\<not> os_path_exists st []"
  by (simp add: os_path_exists_def resolve_def)

text \<open>
  C10. With exactly one argument, \<open>get_path\<close> returns a path exactly when the
  directory name of the argument exists and the argument is a directory. An argument
  without a separator has the empty directory name, which does not exist: it is
  rejected with the usage message and a non-zero exit status, also when it names an
  existing directory.
\<close>

theorem get_path_rejects_bare_name:
  "((\<exists>p. get_path st prog [a] = Inr p) \<longleftrightarrow>
      os_path_exists st (os_path_dirname a) \<and> os_path_isdir st a) \<and>
   (47 \<notin> set a \<longrightarrow>
      get_path st prog [a] =
        Inl (SystemExit (a @ str '' is not a proper folder path.'' @ [10] @ exit_help prog)) \<and>
      exit_status (get_path st prog [a]) \<noteq> 0)"
  by (simp add: get_path_def Let_def exit_status_def dirname_bare not_exists_empty)

theorem get_path_rejects_bare_name_witness:
  "47 \<notin> set (str ''photos'') \<and> os_path_isdir st_photos (str ''photos'') \<and>
   get_path st_photos (str ''sort_in_threads.py'') [str ''photos''] =
     Inl (SystemExit (str ''photos'' @ str '' is not a proper folder path.'' @ [10] @
                      exit_help (str ''sort_in_threads.py''))) \<and>
   (\<exists>p. get_path st_photos (str ''sort_in_threads.py'') [str ''./photos''] = Inr p)"
  using get_path_rejects_bare_name [of st_photos "str ''sort_in_threads.py''" "str ''photos''"]
    get_path_rejects_bare_name [of st_photos "str ''sort_in_threads.py''" "str ''./photos''"]
  by (simp add: st_photos_def path_defs fs_defs)

section \<open>The Directory Preparer and the category directories\<close>

lemma os_renames_one_argument: "os_renames st [x] = Inl TypeError"
  by (simp add: os_renames_def)

lemma prepare_loop_subdirectories:
  "prepare_loop U path items subs files st = (Inr (subs', files'), st') \<Longrightarrow>
   set subs' \<subseteq> set subs \<union>
     {os_path_join path [entry_name i] | i.
        i \<in> set items \<and> entry_name i \<notin> set category_dirs \<and>
        normalize_name U (entry_name i) = entry_name i}"
proof (induction items arbitrary: subs files st)
  case Nil
  then show ?case by simp
next
  case (Cons item items)
  show ?case
  proof (cases "entry_is_dir item")
    case False
    with Cons.prems have "prepare_loop U path items subs (files @ [item]) st = (Inr (subs', files'), st')"
      by simp
    from Cons.IH [OF this] show ?thesis by auto
  next
    case True
    from True Cons.prems obtain temp_list st1 where
      listed: "os_listdir st (entry_path item) = Inr temp_list" and
      removed: "(if length temp_list = 0 then os_rmdir st (entry_path item) else Inr st) = Inr st1"
      by (auto split: sum.splits)
    show ?thesis
    proof (cases "entry_name item \<in> set category_dirs")
      case True
      with \<open>entry_is_dir item\<close> listed removed Cons.prems
      have "prepare_loop U path items subs files st1 = (Inr (subs', files'), st')"
        by (simp del: set_map)
      from Cons.IH [OF this] show ?thesis by auto
    next
      case False
      show ?thesis
      proof (cases "normalize_name U (entry_name item) = entry_name item")
        case same: True
        with False \<open>entry_is_dir item\<close> listed removed Cons.prems
        have "prepare_loop U path items (subs @ [os_path_join path [entry_name item]]) files st1
                = (Inr (subs', files'), st')"
          by (simp add: Let_def del: set_map)
        from Cons.IH [OF this] same False show ?thesis by auto
      next
        case differs: False
        with False \<open>entry_is_dir item\<close> listed removed Cons.prems
        have False
          by (simp add: Let_def os_renames_one_argument del: set_map split: sum.splits)
        then show ?thesis ..
      qed
    qed
  qed
qed


lemma join2_inject:
  assumes "join2 path b = join2 path b'" and "b = [] \<or> hd b \<noteq> 47" and "b' = [] \<or> hd b' \<noteq> 47"
  shows "b = b'"
  using assms by (auto simp: join2_def split: if_splits)

lemma not_word_separator: "\<not> is_word U 47"
  by (simp add: is_word_def ascii_word_def)

lemma normalized_no_separator:
  assumes "normalize_name U n = n"
  shows "47 \<notin> set n"
proof
  assume "47 \<in> set n"
  with assms have "47 \<in> set (re_sub_W U (translate n))"
    by (simp add: normalize_name_def)
  then have "is_word U 47"
    by (rule re_sub_W_word)
  then show False
    by (simp add: not_word_separator)
qed

lemma category_no_separator: "c \<in> set category_dirs \<Longrightarrow> c \<noteq> [] \<and> hd c \<noteq> 47"
  by (auto simp: category_dirs_def str_def)

text \<open>
  C3 (as amended). A non-empty subdirectory with one of the five category names is
  skipped by the loop of the Directory Preparer: the state and the two lists stay as
  they are, so it is neither renamed nor returned. Whenever the Directory Preparer
  returns, no category directory of the scanned directory is in the list of the
  subdirectories that it returns.
\<close>

theorem prepare_folder_excludes_category_directory:
  "(entry_is_dir item \<and> entry_name item \<in> set category_dirs \<and>
      os_listdir st (entry_path item) = Inr (x # xs) \<longrightarrow>
    prepare_loop U path (item # items) subs files st = prepare_loop U path items subs files st) \<and>
   (prepare_folder U st path = (Inr (subdirectories, files_dict), st') \<and> c \<in> set category_dirs \<longrightarrow>
    os_path_join path [c] \<notin> set subdirectories)"
proof (intro conjI impI)
  assume "entry_is_dir item \<and> entry_name item \<in> set category_dirs \<and>
      os_listdir st (entry_path item) = Inr (x # xs)"
  then show "prepare_loop U path (item # items) subs files st =
      prepare_loop U path items subs files st"
    by (simp del: set_map)
next
  assume a: "prepare_folder U st path = (Inr (subdirectories, files_dict), st') \<and>
      c \<in> set category_dirs"
  then obtain folder_items files where
    loop: "prepare_loop U path folder_items [] [] st = (Inr (subdirectories, files), st')"
    by (auto simp: prepare_folder_def split: sum.splits prod.splits)
  show "os_path_join path [c] \<notin> set subdirectories"
  proof
    assume "os_path_join path [c] \<in> set subdirectories"
    with prepare_loop_subdirectories [OF loop]
    obtain i :: dir_entry where
      i: "os_path_join path [c] = os_path_join path [entry_name i]"
         "entry_name i \<notin> set category_dirs" "normalize_name U (entry_name i) = entry_name i"
      by auto
    from i(3) have "47 \<notin> set (entry_name i)"
      by (rule normalized_no_separator)
    then have name: "entry_name i = [] \<or> hd (entry_name i) \<noteq> 47"
      by (cases "entry_name i") auto
    from a have cat: "c = [] \<or> hd c \<noteq> 47"
      by (simp add: category_no_separator)
    from i(1) have "join2 path c = join2 path (entry_name i)"
      by (simp add: os_path_join_def)
    from this cat name have "c = entry_name i"
      by (rule join2_inject)
    with i(2) a show False by simp
  qed
qed

lemma prepare_folder_st_category:
  "prepare_folder latin_alnum st_category (str ''/r'') = (Inr ([], (str ''/r'', [])), st_category)"
  by (simp add: prepare_folder_def st_category_def path_defs fs_defs category_dirs_def)

lemma listdir_st_category: "os_listdir st_category (str ''/r/images'') = Inr [str ''a.jpg'']"
  by (simp add: st_category_def path_defs fs_defs)

theorem prepare_folder_excludes_category_directory_witness:
  "str ''images'' \<in> set category_dirs \<and>
   os_listdir st_category (str ''/r/images'') = Inr [str ''a.jpg''] \<and>
   prepare_folder latin_alnum st_category (str ''/r'') = (Inr ([], (str ''/r'', [])), st_category) \<and>
   os_path_join (str ''/r'') [str ''images''] \<notin> set []"
  using prepare_folder_excludes_category_directory [of "\<lparr>entry_name = str ''images'', entry_path = str ''/r/images'', entry_is_dir = True\<rparr>"
      st_category "str ''a.jpg''" "[]" latin_alnum "str ''/r''" "[]" "[]" "[]" "[]" "(str ''/r'', [])"
      st_category "str ''images''"]
  by (simp add: prepare_folder_st_category listdir_st_category category_dirs_def)

text \<open>
  C3 (as stated). For \<open>/r\<close> with the non-empty category directory \<open>images\<close>, the
  Directory Preparer returns an empty list of subdirectories: \<open>/r/images\<close> is not in it.
\<close>

theorem prepare_folder_category_directory_counterexample:
  "os_listdir st_category (str ''/r/images'') = Inr [str ''a.jpg''] \<and>
   fst (prepare_folder latin_alnum st_category (str ''/r'')) = Inr ([], (str ''/r'', [])) \<and>
   str ''/r/images'' \<notin> set (fst (projr (fst (prepare_folder latin_alnum st_category (str ''/r'')))))"
  by (simp add: prepare_folder_st_category listdir_st_category)

end
